theory Spec2Isabelle
  imports Main "HOL-Library.Char_ord" "HOL-Library.List_Lexorder"
    "HOL-Library.Product_Lexorder" "HOL-Library.Multiset"
begin

section \<open>Strings\<close>

text \<open>
  A Python \<open>str\<close> is modelled as a \<open>string\<close>; a \<open>char\<close> stands for a code point
  below 256. \<open>isspace\<close> is the whitespace test shared by \<open>str.strip\<close> and by the
  regular-expression class \<open>\s\<close> on that range; \<open>isdigit\<close> is the class \<open>\d\<close>.
\<close>

definition isspace :: "char \<Rightarrow> bool" where
  "isspace c = (c \<in> set [CHR 0x09, CHR 0x0A, CHR 0x0B, CHR 0x0C, CHR 0x0D,
     CHR 0x1C, CHR 0x1D, CHR 0x1E, CHR 0x1F, CHR 0x20, CHR 0x85, CHR 0xA0])"

definition isdigit :: "char \<Rightarrow> bool" where
  "isdigit c = (c \<in> set ''0123456789'')"

text \<open>\<open>s.strip()\<close>\<close>

definition strip :: "string \<Rightarrow> string" where
  "strip s = rev (dropWhile isspace (rev (dropWhile isspace s)))"

text \<open>\<open>s.split(sep)\<close> for a non-empty separator; Python raises on an empty one,
  which no call of the program passes.\<close>

function split :: "string \<Rightarrow> string \<Rightarrow> string list" where
  "split sep [] = [[]]"
| "split sep (x # xs) =
     (if sep \<noteq> [] \<and> take (length sep) (x # xs) = sep
      then [] # split sep (drop (length sep) (x # xs))
      else (case split sep xs of
              [] \<Rightarrow> [[x]]
            | p # ps \<Rightarrow> (x # p) # ps))"
  by pat_completeness auto
termination
  by (relation "measure (\<lambda>(sep, s). length s)") auto

text \<open>\<open>s.split(c, 1)\<close> under the guard \<open>c in s\<close>: the text before the first \<open>c\<close>
  and the text after it.\<close>

definition split1 :: "char \<Rightarrow> string \<Rightarrow> string \<times> string" where
  "split1 c s = (takeWhile (\<lambda>x. x \<noteq> c) s, drop 1 (dropWhile (\<lambda>x. x \<noteq> c) s))"

text \<open>\<open>s.splitlines()\<close>: the line boundaries below code point 256, with
  \<open>\r\n\<close> counted once and no empty last line.\<close>

definition islinebreak :: "char \<Rightarrow> bool" where
  "islinebreak c = (c \<in> set [CHR 0x0A, CHR 0x0B, CHR 0x0C, CHR 0x0D,
     CHR 0x1C, CHR 0x1D, CHR 0x1E, CHR 0x85])"

function splitlines :: "string \<Rightarrow> string list" where
  "splitlines [] = []"
| "splitlines (x # xs) =
     (let l = takeWhile (\<lambda>c. \<not> islinebreak c) (x # xs);
          r = dropWhile (\<lambda>c. \<not> islinebreak c) (x # xs)
      in l # (case r of
                [] \<Rightarrow> []
              | c # r' \<Rightarrow>
                  if c = CHR 0x0D \<and> take 1 r' = [CHR 0x0A]
                  then splitlines (drop 1 r') else splitlines r'))"
  by pat_completeness auto
termination
proof (relation "measure length", goal_cases)
  case 1
  show ?case by simp
next
  case (2 x xs l r c r')
  have "length r \<le> length (x # xs)"
    unfolding 2(2) by (rule length_dropWhile_le)
  with 2(3) show ?case by simp
next
  case (3 x xs l r c r')
  have "length r \<le> length (x # xs)"
    unfolding 3(2) by (rule length_dropWhile_le)
  with 3(3) show ?case by simp
qed

text \<open>\<open>str(n)\<close> and \<open>int(s)\<close> on decimal digits.\<close>

definition digit_char :: "nat \<Rightarrow> char" where
  "digit_char d = char_of (of_char (CHR ''0'') + d)"

definition digit_val :: "char \<Rightarrow> nat" where
  "digit_val c = of_char c - of_char (CHR ''0'')"

fun str_nat :: "nat \<Rightarrow> string" where
  "str_nat n = (if n < 10 then [digit_char n]
                else str_nat (n div 10) @ [digit_char (n mod 10)])"

definition str_int :: "int \<Rightarrow> string" where
  "str_int i = (if i < 0 then CHR ''-'' # str_nat (nat (- i)) else str_nat (nat i))"

definition int_of_digits :: "string \<Rightarrow> int" where
  "int_of_digits s = int (foldl (\<lambda>a c. 10 * a + digit_val c) 0 s)"

text \<open>The format specification \<open><w\<close>: left-justified in a field that is at least
  \<open>w\<close> wide.\<close>

definition ljust :: "nat \<Rightarrow> string \<Rightarrow> string" where
  "ljust w s = s @ replicate (w - length s) (CHR '' '')"

section \<open>Regular expressions\<close>

text \<open>
  The patterns of the program are sequences of literals and of quantified character
  classes, some of them inside a capturing group. \<open>rmatch\<close> is the backtracking matcher
  of \<open>re\<close> on such patterns: every quantifier is greedy, so it first tries the longest
  run and gives back one character at a time; the first way through the whole pattern
  wins. The result holds the captured groups and the input left after the match.
\<close>

datatype cclass =
    Space             \<comment> \<open>\<open>\s\<close>\<close>
  | NonSpace          \<comment> \<open>\<open>\S\<close>\<close>
  | Digit             \<comment> \<open>\<open>\d\<close>\<close>
  | NotChr char       \<comment> \<open>\<open>[^c]\<close>\<close>

fun in_class :: "cclass \<Rightarrow> char \<Rightarrow> bool" where
  "in_class Space c = isspace c"
| "in_class NonSpace c = (\<not> isspace c)"
| "in_class Digit c = isdigit c"
| "in_class (NotChr x) c = (c \<noteq> x)"

datatype tok =
    Lit string        \<comment> \<open>literal text\<close>
  | Star cclass       \<comment> \<open>\<open>C*\<close>\<close>
  | Plus cclass       \<comment> \<open>\<open>C+\<close>\<close>
  | Opt char          \<comment> \<open>\<open>c?\<close>\<close>
  | Group tok         \<comment> \<open>\<open>(...)\<close>\<close>

text \<open>The lengths a token can match at the start of the input, in the order the
  matcher tries them.\<close>

fun spans :: "tok \<Rightarrow> string \<Rightarrow> nat list" where
  "spans (Lit l) s = (if take (length l) s = l then [length l] else [])"
| "spans (Star c) s = rev [0..<Suc (length (takeWhile (in_class c) s))]"
| "spans (Plus c) s = rev [1..<Suc (length (takeWhile (in_class c) s))]"
| "spans (Opt x) s = (if take 1 s = [x] then [1, 0] else [0])"
| "spans (Group t) s = spans t s"

fun is_group :: "tok \<Rightarrow> bool" where
  "is_group (Group t) = True"
| "is_group t = False"

fun first_some :: "('a \<Rightarrow> 'b option) \<Rightarrow> 'a list \<Rightarrow> 'b option" where
  "first_some f [] = None"
| "first_some f (x # xs) = (case f x of Some y \<Rightarrow> Some y | None \<Rightarrow> first_some f xs)"

primrec rmatch :: "tok list \<Rightarrow> string \<Rightarrow> (string list \<times> string) option" where
  "rmatch [] s = Some ([], s)"
| "rmatch (t # ts) s =
     first_some
       (\<lambda>n. case rmatch ts (drop n s) of
               None \<Rightarrow> None
             | Some (gs, r) \<Rightarrow> Some (if is_group t then take n s # gs else gs, r))
       (spans t s)"

text \<open>\<open>re.search\<close>: the match at the leftmost position that has one, as the matched
  text (group 0) and the captured groups.\<close>

fun search :: "tok list \<Rightarrow> string \<Rightarrow> (string \<times> string list) option" where
  "search p [] =
     (case rmatch p [] of
        Some (gs, r) \<Rightarrow> Some ([], gs)
      | None \<Rightarrow> None)"
| "search p (c # cs) =
     (case rmatch p (c # cs) of
        Some (gs, r) \<Rightarrow> Some (take (length (c # cs) - length r) (c # cs), gs)
      | None \<Rightarrow> search p cs)"

text \<open>\<open>match.group(k)\<close>\<close>

fun group :: "string \<times> string list \<Rightarrow> nat \<Rightarrow> string" where
  "group (g0, gs) 0 = g0"
| "group (g0, gs) (Suc k) = gs ! k"

section \<open>The field parsers\<close>

datatype error = ValueError

record AuthorLine =
  last_name :: string
  first_name :: string
  birth_year :: "string option"

definition AuthorLine_init :: "string \<Rightarrow> AuthorLine" where
  "AuthorLine_init text =
     (let parts = map strip (split '','' text)
      in \<lparr> last_name = parts ! 0,
           first_name = (if length parts > 1 then parts ! 1 else ''''),
           birth_year = (if length parts > 2 then Some (butlast (parts ! 2)) else None) \<rparr>)"

definition AuthorLine_str :: "AuthorLine \<Rightarrow> string" where
  "AuthorLine_str a =
     (case birth_year a of
        Some y \<Rightarrow> ''  '' @ last_name a @ '', '' @ first_name a @ '', '' @ y @ ''-''
      | None \<Rightarrow> ''  '' @ last_name a @ '', '' @ first_name a)"

record TitleStatement =
  title :: string
  author :: string

definition TitleStatement_init :: "string \<Rightarrow> TitleStatement" where
  "TitleStatement_init text =
     (if CHR ''/'' \<in> set text
      then (case split1 (CHR ''/'') text of
              (t, a) \<Rightarrow> \<lparr> title = strip t, author = strip a \<rparr>)
      else \<lparr> title = strip text, author = '''' \<rparr>)"

definition TitleStatement_str :: "TitleStatement \<Rightarrow> string" where
  "TitleStatement_str t = ''  '' @ title t @ '' / '' @ author t"

record CopyLine =
  copies :: int
  item_id :: string
  type :: string
  location :: string
  main_location :: string
  sub_location :: "string option"

definition COPY_LINE_RE :: "tok list" where
  "COPY_LINE_RE =
     [Lit ''copy:'', Group (Plus Digit), Plus Space,
      Lit ''item ID:'', Group (Plus NonSpace), Plus Space,
      Lit ''type:'', Group (Plus NonSpace), Plus Space,
      Lit ''location:'', Group (Plus NonSpace)]"

definition CopyLine_init :: "string \<Rightarrow> error + CopyLine" where
  "CopyLine_init line =
     (case search COPY_LINE_RE line of
        None \<Rightarrow> Inl ValueError
      | Some m \<Rightarrow>
          (let loc = group m 4;
               (main, sub) =
                 (if CHR ''-'' \<in> set loc
                  then (case split1 (CHR ''-'') loc of (a, b) \<Rightarrow> (a, Some b))
                  else (loc, None))
           in Inr \<lparr> copies = int_of_digits (group m 1),
                    item_id = group m 2,
                    type = group m 3,
                    location = loc,
                    main_location = main,
                    sub_location = sub \<rparr>))"

definition CopyLine_str :: "CopyLine \<Rightarrow> string" where
  "CopyLine_str c =
     ''     ''
     @ ''copy:'' @ ljust 5 (str_int (copies c))
     @ ''item ID:'' @ ljust 18 (item_id c)
     @ ''type:'' @ ljust 12 (type c)
     @ ''location:'' @ ljust 12 (location c)"

record PickupLine =
  pickup_library :: string
  discharge_date :: string

definition PICKUP_RE :: "tok list" where
  "PICKUP_RE =
     [Lit (''Pickup library:'' @ [CHR 0x22]), Group (Plus (NotChr (CHR 0x22))),
      Lit [CHR 0x22], Plus Space,
      Lit ''Date of discharge:'', Group (Plus NonSpace)]"

definition PickupLine_init :: "string \<Rightarrow> error + PickupLine" where
  "PickupLine_init line =
     (case search PICKUP_RE line of
        None \<Rightarrow> Inl ValueError
      | Some m \<Rightarrow> Inr \<lparr> pickup_library = group m 1, discharge_date = group m 2 \<rparr>)"

definition PickupLine_left :: "PickupLine \<Rightarrow> string" where
  "PickupLine_left p = ''Pickup library:'' @ [CHR 0x22] @ pickup_library p @ [CHR 0x22]"

definition PickupLine_right :: "PickupLine \<Rightarrow> string" where
  "PickupLine_right p = ''Date of discharge:'' @ discharge_date p"

definition PickupLine_padding :: "PickupLine \<Rightarrow> int" where
  "PickupLine_padding p =
     max 1 (80 - int (length ''  '') - int (length (PickupLine_left p))
              - int (length (PickupLine_right p)))"

definition PickupLine_str :: "PickupLine \<Rightarrow> string" where
  "PickupLine_str p =
     ''  '' @ PickupLine_left p
     @ replicate (nat (PickupLine_padding p)) (CHR '' '') @ PickupLine_right p"

section \<open>Entries, reports and the report parser\<close>

record SirsiEntry =
  alpha_key :: string
  author_line :: AuthorLine
  title_statement :: TitleStatement
  copy_line :: CopyLine
  pickup_line :: PickupLine

definition SirsiEntry_init :: "string \<Rightarrow> error + SirsiEntry" where
  "SirsiEntry_init raw_block =
     (let lines = splitlines (strip raw_block)
      in if length lines < 5 then Inl ValueError
         else
           (let k = strip (lines ! 0);
                a = AuthorLine_init (strip (lines ! 1));
                t = TitleStatement_init (strip (lines ! 2))
            in case CopyLine_init (lines ! 3) of
                 Inl e \<Rightarrow> Inl e
               | Inr c \<Rightarrow>
                   (case PickupLine_init (lines ! 4) of
                      Inl e \<Rightarrow> Inl e
                    | Inr p \<Rightarrow>
                        Inr \<lparr> alpha_key = k, author_line = a, title_statement = t,
                              copy_line = c, pickup_line = p \<rparr>)))"

definition SirsiEntry_str :: "SirsiEntry \<Rightarrow> string" where
  "SirsiEntry_str e =
     alpha_key e @ [CHR 0x0A] @ AuthorLine_str (author_line e) @ [CHR 0x0A]
     @ TitleStatement_str (title_statement e) @ [CHR 0x0A]
     @ CopyLine_str (copy_line e) @ [CHR 0x0A] @ PickupLine_str (pickup_line e)"

record SirsiReport =
  entries :: "SirsiEntry list"
  header :: string

definition SirsiReport_init :: "string \<Rightarrow> SirsiEntry list \<Rightarrow> SirsiReport" where
  "SirsiReport_init h es = \<lparr> entries = es, header = h \<rparr>"

text \<open>\<open>xs.index(x)\<close>: the first position of \<open>x\<close>, or a \<open>ValueError\<close>.\<close>

fun index :: "'a list \<Rightarrow> 'a \<Rightarrow> error + nat" where
  "index [] x = Inl ValueError"
| "index (y # ys) x =
     (if y = x then Inr 0
      else (case index ys x of Inl e \<Rightarrow> Inl e | Inr i \<Rightarrow> Inr (Suc i)))"

text \<open>The rank of a location: \<open>sort_order.index(loc) if loc in sort_order else
  len(sort_order)\<close>. The guard keeps \<open>index\<close> from raising (lemma \<open>index_mem\<close>), so the
  error branch below is never taken.\<close>

definition loc_index :: "string list \<Rightarrow> string \<Rightarrow> nat" where
  "loc_index sort_order loc =
     (if loc \<in> set sort_order
      then (case index sort_order loc of Inr i \<Rightarrow> i | Inl e \<Rightarrow> length sort_order)
      else length sort_order)"

definition location_sort_key :: "string list \<Rightarrow> SirsiEntry \<Rightarrow> nat" where
  "location_sort_key sort_order entry =
     loc_index sort_order (main_location (copy_line entry))"

definition key :: "string list \<Rightarrow> SirsiEntry \<Rightarrow> nat \<times> string \<times> string" where
  "key sort_order entry =
     (loc_index sort_order (main_location (copy_line entry)),
      last_name (author_line entry),
      first_name (author_line entry))"

text \<open>\<open>list.sort(key=...)\<close> is a stable sort on the keys; tuples compare
  lexicographically, strings by code point. \<open>sort_key\<close> is the stable sort of the
  library, on the lexicographic orders of pairs and lists.\<close>

definition sort_by_location :: "string list \<Rightarrow> SirsiReport \<Rightarrow> SirsiReport" where
  "sort_by_location sort_order r =
     r\<lparr> entries := sort_key (location_sort_key sort_order) (entries r) \<rparr>"

definition sort_by_location_and_author :: "string list \<Rightarrow> SirsiReport \<Rightarrow> SirsiReport" where
  "sort_by_location_and_author sort_order r =
     r\<lparr> entries := sort_key (key sort_order) (entries r) \<rparr>"

definition HEADER_PATTERN :: "tok list" where
  "HEADER_PATTERN =
     [Star Space, Lit ''HOLD PICKUP LIST'', Star Space, Lit [CHR 0x0A],
      Star Space, Opt (CHR 0x0A),
      Star Space, Lit ''Produced'', Plus Space,
        Lit [CHR 0x22], Plus (NotChr (CHR 0x22)), Lit [CHR 0x22], Star Space, Lit [CHR 0x0A],
      Star Space, Opt (CHR 0x0A),
      Star Space, Lit ''Library:'', Plus Space,
        Lit [CHR 0x22], Plus (NotChr (CHR 0x22)), Lit [CHR 0x22], Star Space]"

text \<open>The loop over the blocks: \<open>es\<close> is the list \<open>entries\<close> built so far; a block whose
  entry raises \<open>ValueError\<close> is skipped.\<close>

fun parse_blocks :: "string list \<Rightarrow> SirsiEntry list \<Rightarrow> SirsiEntry list" where
  "parse_blocks [] es = es"
| "parse_blocks (block # blocks) es =
     (case SirsiEntry_init block of
        Inr entry \<Rightarrow> parse_blocks blocks (es @ [entry])
      | Inl ValueError \<Rightarrow> parse_blocks blocks es)"

definition parse_header :: "string \<Rightarrow> string" where
  "parse_header text =
     (case search HEADER_PATTERN text of Some m \<Rightarrow> group m 0 | None \<Rightarrow> '''')"

definition parse_split :: "string \<Rightarrow> string list" where
  "parse_split text = filter (\<lambda>b. strip b \<noteq> []) (split [CHR 0x0A, CHR 0x0A] text)"

definition SirsiParser_parse :: "string \<Rightarrow> SirsiReport" where
  "SirsiParser_parse text =
     SirsiReport_init (parse_header text) (parse_blocks (parse_split text) [])"

section \<open>The reading of the author line in the specification\<close>

text \<open>
  The specification describes the author line as split on \<open>","\<close> into at most three
  parts, the third holding the rest of the text (\<open>text.split(",", 2)\<close>).
  \<open>AuthorLine_spec\<close> follows these words; \<open>AuthorLine_init\<close> above follows the source,
  which splits on every comma.
\<close>

definition AuthorLine_spec :: "string \<Rightarrow> AuthorLine" where
  "AuthorLine_spec text =
     (let parts =
            (if CHR '','' \<notin> set text then [text]
             else (case split1 (CHR '','') text of
                     (a, r) \<Rightarrow>
                       if CHR '','' \<notin> set r then [a, r]
                       else (case split1 (CHR '','') r of (b, c) \<Rightarrow> [a, b, c])));
          ps = map strip parts
      in \<lparr> last_name = ps ! 0,
           first_name = (if length ps > 1 then ps ! 1 else ''''),
           birth_year = (if length ps > 2 then Some (butlast (ps ! 2)) else None) \<rparr>)"

section \<open>Sample data\<close>

text \<open>An entry with the given location (without a hyphen) and author names, and a
  report of three such entries, out of order.\<close>

definition sample_entry :: "string \<Rightarrow> string \<Rightarrow> string \<Rightarrow> SirsiEntry" where
  "sample_entry loc lname fname =
     \<lparr> alpha_key = lname,
       author_line = \<lparr> last_name = lname, first_name = fname, birth_year = None \<rparr>,
       title_statement = \<lparr> title = ''T'', author = '''' \<rparr>,
       copy_line = \<lparr> copies = 1, item_id = ''X'', type = ''BOOK'', location = loc,
                     main_location = loc, sub_location = None \<rparr>,
       pickup_line = \<lparr> pickup_library = ''MAIN'', discharge_date = ''1/2/2025'' \<rparr> \<rparr>"

definition sample_report :: SirsiReport where
  "sample_report =
     \<lparr> entries = [sample_entry ''MAPS'' ''Adams'' ''Ann'',
                  sample_entry ''FIC'' ''Zed'' ''Zoe'',
                  sample_entry ''FIC'' ''Adams'' ''Bob''],
       header = ''H'' \<rparr>"

section \<open>Splitting\<close>

lemma split_no_sep: "c \<notin> set a \<Longrightarrow> split [c] a = [a]"
  by (induction a) auto

lemma split_at_sep: "c \<notin> set a \<Longrightarrow> split [c] (a @ c # r) = a # split [c] r"
  by (induction a) auto

lemma split1_at_sep: "c \<notin> set a \<Longrightarrow> split1 c (a @ c # r) = (a, r)"
  by (induction a) (auto simp: split1_def)

section \<open>Author lines\<close>

text \<open>
  With at most two commas the source and the reading of the specification agree.
\<close>

lemma AuthorLine_spec_agrees:
  assumes "CHR '','' \<notin> set a" and "CHR '','' \<notin> set b" and "CHR '','' \<notin> set c"
  shows "AuthorLine_spec a = AuthorLine_init a
       \<and> AuthorLine_spec (a @ '','' @ b) = AuthorLine_init (a @ '','' @ b)
       \<and> AuthorLine_spec (a @ '','' @ b @ '','' @ c) =
           AuthorLine_init (a @ '','' @ b @ '','' @ c)"
  using assms
  by (simp add: AuthorLine_spec_def AuthorLine_init_def split_no_sep split_at_sep
      split1_at_sep Let_def del: split.simps)

text \<open>
  Claim C5, as stated, fails: on \<open>a,b,c,d\<close> the source splits into four parts, and the
  birth year is the third of them without its last character (the empty string), not
  the rest of the text without its last character.
\<close>

theorem AuthorLine_init_counterexample:
  "\<not> length (split '','' ''a,b,c,d'') \<le> 3
   \<and> birth_year (AuthorLine_init ''a,b,c,d'') = Some []
   \<and> birth_year (AuthorLine_spec ''a,b,c,d'') = Some ''c,''"
  by (simp add: AuthorLine_init_def AuthorLine_spec_def split1_def strip_def isspace_def)

text \<open>
  Claim C5, amended: the author line is split on every comma and each part is trimmed.
  Without a comma the whole text is the last name; the text between the first and the
  second comma is the first name (empty without a comma); the text between the second
  comma and the third (or the end of the text), when there is a second comma, is the
  birth year with its last character removed; whatever follows a third comma is ignored.
\<close>

theorem AuthorLine_init_parts:
  assumes "CHR '','' \<notin> set a" and "CHR '','' \<notin> set b" and "CHR '','' \<notin> set c"
  shows "AuthorLine_init a =
           \<lparr> last_name = strip a, first_name = [], birth_year = None \<rparr>
       \<and> AuthorLine_init (a @ '','' @ b) =
           \<lparr> last_name = strip a, first_name = strip b, birth_year = None \<rparr>
       \<and> AuthorLine_init (a @ '','' @ b @ '','' @ c) =
           \<lparr> last_name = strip a, first_name = strip b,
             birth_year = Some (butlast (strip c)) \<rparr>
       \<and> AuthorLine_init (a @ '','' @ b @ '','' @ c @ '','' @ rest) =
           \<lparr> last_name = strip a, first_name = strip b,
             birth_year = Some (butlast (strip c)) \<rparr>"
  using assms
  by (simp add: AuthorLine_init_def split_no_sep split_at_sep Let_def del: split.simps)

theorem AuthorLine_init_parts_witness:
  "CHR '','' \<notin> set ''Doe'' \<and> CHR '','' \<notin> set '' John'' \<and> CHR '','' \<notin> set '' 1950-''
   \<and> AuthorLine_init ''Doe, John, 1950-, x'' =
       \<lparr> last_name = ''Doe'', first_name = ''John'', birth_year = Some ''1950'' \<rparr>"
  using AuthorLine_init_parts [of "''Doe''" "'' John''" "'' 1950-''" "'' x''"]
  by (simp add: strip_def isspace_def)

section \<open>Title statements\<close>

text \<open>
  Claim C6: for every text without \<open>"/"\<close> the title is the whole trimmed text, the
  author is empty, and the rendering is two spaces, the title and \<open>" / "\<close>, the
  separator and its trailing space kept.
\<close>

theorem TitleStatement_no_separator:
  assumes "CHR ''/'' \<notin> set text"
  shows "title (TitleStatement_init text) = strip text
       \<and> author (TitleStatement_init text) = []
       \<and> TitleStatement_str (TitleStatement_init text) = ''  '' @ strip text @ '' / ''"
  using assms by (simp add: TitleStatement_init_def TitleStatement_str_def)

theorem TitleStatement_no_separator_witness:
  "CHR ''/'' \<notin> set ''Some Book''
   \<and> TitleStatement_str (TitleStatement_init ''Some Book'') = ''  Some Book / ''"
  using TitleStatement_no_separator [of "''Some Book''"]
  by (simp add: strip_def isspace_def)

section \<open>Sorting\<close>

lemma index_mem:
  "x \<in> set xs \<Longrightarrow> \<exists>i. index xs x = Inr i \<and> i < length xs"
  by (induction xs) auto

lemma loc_index_less: "loc \<in> set order \<Longrightarrow> loc_index order loc < length order"
  using index_mem [of loc order] by (auto simp: loc_index_def)

lemma loc_index_absent: "loc \<notin> set order \<Longrightarrow> loc_index order loc = length order"
  by (simp add: loc_index_def)

lemma insort_key_cong_le:
  assumes "\<And>a b. (f a \<le> f b) = (g a \<le> g b)"
  shows "insort_key f x xs = insort_key g x xs"
  by (induction xs) (simp_all add: assms)

lemma sort_key_cong_le:
  assumes "\<And>a b. (f a \<le> f b) = (g a \<le> g b)"
  shows "sort_key f xs = sort_key g xs"
  by (induction xs) (simp_all add: insort_key_cong_le [OF assms])

lemma sample_sorted:
  "entries (sort_by_location_and_author [''FIC''] sample_report) =
     [sample_entry ''FIC'' ''Adams'' ''Bob'',
      sample_entry ''FIC'' ''Zed'' ''Zoe'',
      sample_entry ''MAPS'' ''Adams'' ''Ann'']"
  by code_simp

text \<open>
  Claim C2: after \<open>sort_by_location_and_author order\<close>, adjacent entries are in
  ascending order of location rank and, on equal rank, of (last name, first name);
  an entry whose main location is listed in \<open>order\<close> stands before every entry whose
  main location is not; entries with equal keys keep their relative order; the entries
  are the same multiset as before and the header is untouched.
\<close>

theorem sort_by_location_and_author_sorted:
  fixes order :: "string list" and r :: SirsiReport
  shows "(\<forall>i. Suc i < length (entries (sort_by_location_and_author order r)) \<longrightarrow>
            (let e1 = entries (sort_by_location_and_author order r) ! i;
                 e2 = entries (sort_by_location_and_author order r) ! Suc i;
                 r1 = loc_index order (main_location (copy_line e1));
                 r2 = loc_index order (main_location (copy_line e2))
             in r1 \<le> r2
                \<and> (r1 = r2 \<longrightarrow>
                     (last_name (author_line e1), first_name (author_line e1))
                       \<le> (last_name (author_line e2), first_name (author_line e2)))))
       \<and> (\<forall>i j. i < length (entries (sort_by_location_and_author order r))
              \<and> j < length (entries (sort_by_location_and_author order r))
              \<and> main_location (copy_line (entries (sort_by_location_and_author order r) ! i))
                   \<in> set order
              \<and> main_location (copy_line (entries (sort_by_location_and_author order r) ! j))
                   \<notin> set order
              \<longrightarrow> i < j)
       \<and> (\<forall>k. filter (\<lambda>e. key order e = k) (entries (sort_by_location_and_author order r))
               = filter (\<lambda>e. key order e = k) (entries r))
       \<and> mset (entries (sort_by_location_and_author order r)) = mset (entries r)
       \<and> header (sort_by_location_and_author order r) = header r"
proof -
  define es where "es = sort_key (key order) (entries r)"
  have es: "entries (sort_by_location_and_author order r) = es"
    by (simp add: es_def sort_by_location_and_author_def)
  have srt: "sorted (map (key order) es)"
    unfolding es_def by (rule sorted_sort_key)
  have mono: "key order (es ! i) \<le> key order (es ! j)" if "i \<le> j" "j < length es" for i j
    using sorted_nth_mono [OF srt, of i j] that by simp
  have adj: "(let e1 = es ! i; e2 = es ! Suc i;
                 r1 = loc_index order (main_location (copy_line e1));
                 r2 = loc_index order (main_location (copy_line e2))
             in r1 \<le> r2
                \<and> (r1 = r2 \<longrightarrow>
                     (last_name (author_line e1), first_name (author_line e1))
                       \<le> (last_name (author_line e2), first_name (author_line e2))))"
    if "Suc i < length es" for i
    using mono [of i "Suc i"] that
    by (auto simp: key_def Let_def less_eq_prod_def)
  have late: "i < j"
    if "i < length es" "j < length es"
       "main_location (copy_line (es ! i)) \<in> set order"
       "main_location (copy_line (es ! j)) \<notin> set order" for i j
  proof (rule ccontr)
    assume "\<not> i < j"
    then have "j \<le> i" by simp
    from mono [OF this that(1)]
    have "loc_index order (main_location (copy_line (es ! j)))
            \<le> loc_index order (main_location (copy_line (es ! i)))"
      by (auto simp: key_def less_eq_prod_def)
    with loc_index_less [OF that(3)] loc_index_absent [OF that(4)]
    show False by simp
  qed
  have stable: "filter (\<lambda>e. key order e = k) es = filter (\<lambda>e. key order e = k) (entries r)"
    for k
    unfolding es_def by (rule sort_key_stable)
  have perm: "mset es = mset (entries r)"
    unfolding es_def by simp
  have hdr: "header (sort_by_location_and_author order r) = header r"
    by (simp add: sort_by_location_and_author_def)
  show ?thesis
    unfolding es using adj late stable perm hdr by blast
qed

theorem sort_by_location_and_author_sorted_witness:
  "Suc 0 < length (entries (sort_by_location_and_author [''FIC''] sample_report))
   \<and> entries (sort_by_location_and_author [''FIC''] sample_report) =
       [sample_entry ''FIC'' ''Adams'' ''Bob'',
        sample_entry ''FIC'' ''Zed'' ''Zoe'',
        sample_entry ''MAPS'' ''Adams'' ''Ann'']
   \<and> loc_index [''FIC''] ''FIC'' \<le> loc_index [''FIC''] ''FIC''
   \<and> (''Adams'', ''Bob'') \<le> (''Zed'', ''Zoe'')
   \<and> ''FIC'' \<in> set [''FIC''] \<and> ''MAPS'' \<notin> set [''FIC'']"
  using sort_by_location_and_author_sorted [of "[''FIC'']" sample_report] sample_sorted
  by (simp add: sample_entry_def less_eq_prod_def less_char_def)

text \<open>
  Claim C9: with an empty priority list every entry has location rank 0, and the
  entries come out as the stable sort on (last name, first name) alone.
\<close>

theorem sort_empty_order:
  "entries (sort_by_location_and_author [] r) =
     sort_key (\<lambda>e. (last_name (author_line e), first_name (author_line e))) (entries r)
   \<and> header (sort_by_location_and_author [] r) = header r
   \<and> (\<forall>e. loc_index [] (main_location (copy_line e)) = 0)"
proof -
  have "sort_key (key []) (entries r) =
        sort_key (\<lambda>e. (last_name (author_line e), first_name (author_line e))) (entries r)"
    by (rule sort_key_cong_le) (simp add: key_def loc_index_def)
  then show ?thesis
    by (simp add: sort_by_location_and_author_def loc_index_def)
qed

end
